theory Spec2Isabelle
  imports Complex_Main
begin

section \<open>JavaScript values used by the statblock component\<close>

text \<open>
  The component (\<^verbatim>\<open>src/unnamed/part_000\<close>, a Svelte component) reads optional fields of
  the creature (\<^verbatim>\<open>Monster\<close>, \<^verbatim>\<open>src/index.ts\<close>) and of the layout, converts them with
  \<^verbatim>\<open>Number\<close>, tests them with \<^verbatim>\<open>isNaN\<close> and \<^verbatim>\<open>> 0\<close>, and computes with
  \<^verbatim>\<open>Math.floor\<close>, \<^verbatim>\<open>Math.max\<close>, \<^verbatim>\<open>Math.min\<close> and \<^verbatim>\<open>/\<close>.

  A JavaScript \<^verbatim>\<open>number\<close> is modelled as \<open>NaN\<close>, the two infinities, or a finite value;
  finite values are exact rationals, so rounding of doubles and the sign of zero are not
  represented. An optional field (\<^verbatim>\<open>columns?: number\<close>) is an \<open>option\<close>; \<open>None\<close>
  stands for a nullish value, which is what \<^verbatim>\<open>??\<close> tests. (\<^verbatim>\<open>Number(null)\<close> is \<open>0\<close> where
  \<^verbatim>\<open>Number(undefined)\<close> is \<^verbatim>\<open>NaN\<close>; neither is a positive number, and the component only
  asks whether the value is one.)
\<close>

datatype jsnum = NaN | NInf | Fin rat | PInf

fun isNaN :: "jsnum \<Rightarrow> bool" where
  "isNaN NaN = True"
| "isNaN _ = False"

text \<open>\<^verbatim>\<open>a < b\<close> on numbers: false as soon as one side is \<^verbatim>\<open>NaN\<close>.\<close>

fun js_less :: "jsnum \<Rightarrow> jsnum \<Rightarrow> bool" where
  "js_less NaN _ = False"
| "js_less _ NaN = False"
| "js_less NInf NInf = False"
| "js_less NInf _ = True"
| "js_less (Fin a) (Fin b) = (a < b)"
| "js_less (Fin a) PInf = True"
| "js_less (Fin a) NInf = False"
| "js_less PInf _ = False"

text \<open>\<^verbatim>\<open>a <= b\<close> on numbers.\<close>

fun js_le :: "jsnum \<Rightarrow> jsnum \<Rightarrow> bool" where
  "js_le NaN _ = False"
| "js_le _ NaN = False"
| "js_le NInf _ = True"
| "js_le (Fin a) (Fin b) = (a \<le> b)"
| "js_le (Fin a) PInf = True"
| "js_le (Fin a) NInf = False"
| "js_le PInf PInf = True"
| "js_le PInf _ = False"

text \<open>\<^verbatim>\<open>Math.max(a, b)\<close> and \<^verbatim>\<open>Math.min(a, b)\<close>: \<^verbatim>\<open>NaN\<close> if an argument is \<^verbatim>\<open>NaN\<close>.\<close>

definition Math_max :: "jsnum \<Rightarrow> jsnum \<Rightarrow> jsnum" where
  "Math_max a b = (if isNaN a \<or> isNaN b then NaN else if js_less a b then b else a)"

definition Math_min :: "jsnum \<Rightarrow> jsnum \<Rightarrow> jsnum" where
  "Math_min a b = (if isNaN a \<or> isNaN b then NaN else if js_less b a then b else a)"

fun Math_floor :: "jsnum \<Rightarrow> jsnum" where
  "Math_floor (Fin a) = Fin (of_int \<lfloor>a\<rfloor>)"
| "Math_floor x = x"

text \<open>\<^verbatim>\<open>a / b\<close>. A zero divisor is taken as \<^verbatim>\<open>+0\<close>.\<close>

fun js_div :: "jsnum \<Rightarrow> jsnum \<Rightarrow> jsnum" where
  "js_div NaN _ = NaN"
| "js_div _ NaN = NaN"
| "js_div (Fin a) (Fin b) =
     (if b \<noteq> 0 then Fin (a / b)
      else if a = 0 then NaN else if 0 < a then PInf else NInf)"
| "js_div (Fin a) _ = Fin 0"
| "js_div PInf (Fin b) = (if b < 0 then NInf else PInf)"
| "js_div NInf (Fin b) = (if b < 0 then PInf else NInf)"
| "js_div _ _ = NaN"

text \<open>\<^verbatim>\<open>Number(v)\<close> for an optional number: \<^verbatim>\<open>Number(undefined)\<close> is \<^verbatim>\<open>NaN\<close>.\<close>

fun Number :: "jsnum option \<Rightarrow> jsnum" where
  "Number None = NaN"
| "Number (Some n) = n"

text \<open>\<^verbatim>\<open>a ?? b\<close>, with an optional and with a definite right operand.\<close>

fun nullish :: "'a option \<Rightarrow> 'a option \<Rightarrow> 'a option" where
  "nullish None b = b"
| "nullish (Some a) b = Some a"

fun nullish_or :: "'a option \<Rightarrow> 'a \<Rightarrow> 'a" where
  "nullish_or None b = b"
| "nullish_or (Some a) b = a"

text \<open>Truthiness of an optional boolean, as tested by \<^verbatim>\<open>if (...)\<close>.\<close>

fun truthy :: "bool option \<Rightarrow> bool" where
  "truthy None = False"
| "truthy (Some b) = b"

subsection \<open>Strings: template literals, digit stripping, parsing\<close>

text \<open>
  \<^verbatim>\<open>monster.columnWidth\<close> is declared a number, but the component first renders it into a
  string, \<^verbatim>\<open>`${monster.columnWidth}`\<close>, and removes every non-digit, so a text such as
  \<^verbatim>\<open>400px\<close> is accepted as well. The field is modelled as an integer (printed in plain
  decimal, as JavaScript does below \<open>10^21\<close>) or a string.
\<close>

datatype width_value = WNum int | WStr string

definition digit_char :: "nat \<Rightarrow> char" where
  "digit_char d = ''0123456789'' ! d"

function decimal :: "nat \<Rightarrow> string" where
  "decimal n = (if n < 10 then [digit_char n] else decimal (n div 10) @ [digit_char (n mod 10)])"
  by pat_completeness auto
termination
  by (relation "measure (\<lambda>n. n)") auto

definition int_toString :: "int \<Rightarrow> string" where
  "int_toString i = (if i < 0 then CHR ''-'' # decimal (nat (- i)) else decimal (nat i))"

text \<open>The template literal \<^verbatim>\<open>`${v}`\<close>.\<close>

fun template_literal :: "width_value option \<Rightarrow> string" where
  "template_literal None = ''undefined''"
| "template_literal (Some (WNum i)) = int_toString i"
| "template_literal (Some (WStr s)) = s"

definition is_digit :: "char \<Rightarrow> bool" where
  "is_digit c = (c \<in> set ''0123456789'')"

text \<open>\<^verbatim>\<open>s.replace(/\D/g, "")\<close>.\<close>

definition strip_non_digits :: "string \<Rightarrow> string" where
  "strip_non_digits s = filter is_digit s"

definition digit_value :: "char \<Rightarrow> nat" where
  "digit_value c = of_char c - 48"

text \<open>\<^verbatim>\<open>Number(s)\<close> for a string of decimal digits; \<^verbatim>\<open>Number("")\<close> is \<open>0\<close>.\<close>

definition Number_digits :: "string \<Rightarrow> jsnum" where
  "Number_digits s = Fin (of_nat (foldl (\<lambda>a c. 10 * a + digit_value c) 0 s))"

section \<open>Creature, layout and plugin\<close>

text \<open>
  The fields of \<^verbatim>\<open>Monster\<close> (\<^verbatim>\<open>src/index.ts\<close>, "Statblock Parameters") that the component
  reads. The component receives a \<^verbatim>\<open>Partial<Monster>\<close>, so the name is optional too.
\<close>

record monster =
  name :: "string option"
  dice :: "bool option"
  render :: "bool option"
  columns :: "jsnum option"
  columnWidth :: "width_value option"
  forceColumns :: "bool option"

text \<open>The fields of \<^verbatim>\<open>Layout\<close> that the component reads.\<close>

record layout =
  layout_id :: string
  name :: string
  columns :: "jsnum option"
  columnWidth :: "jsnum option"
  forceColumns :: "bool option"

text \<open>
  What the component reads of the plugin: \<^verbatim>\<open>plugin.canUseDiceRoller\<close>,
  \<^verbatim>\<open>plugin.settings.useDice\<close>, \<^verbatim>\<open>plugin.settings.renderDice\<close> and the layout registry
  \<^verbatim>\<open>plugin.manager.getAllLayouts()\<close>.
\<close>

record plugin =
  canUseDiceRoller :: bool
  useDice :: bool
  renderDice :: bool
  getAllLayouts :: "layout list"

text \<open>
  A block of a layout (\<^verbatim>\<open>StatblockItem\<close>), reduced to what \<^verbatim>\<open>getNestedLayouts\<close>
  reads: \<open>Item type layout nested\<close> has the block's \<^verbatim>\<open>type\<close>, the id of the embedded
  layout (\<^verbatim>\<open>block.layout\<close>, present on blocks of type \<^verbatim>\<open>layout\<close>) and the children of a
  container; \<^verbatim>\<open>"nested" in block\<close> holds when the third component is \<open>Some\<close>.
\<close>

datatype StatblockItem = Item string "string option" "StatblockItem list option"

section \<open>State of a component instance\<close>

text \<open>
  The props \<^verbatim>\<open>monster\<close>, \<^verbatim>\<open>plugin\<close>, \<^verbatim>\<open>statblock\<close> and \<^verbatim>\<open>layout\<close>; the store
  \<^verbatim>\<open>monsterStore\<close>; the constants \<^verbatim>\<open>maxColumns\<close>, \<^verbatim>\<open>columnWidth\<close>, \<^verbatim>\<open>canDice\<close> and
  \<^verbatim>\<open>canRender\<close>, assigned once when the script body runs; the variables \<^verbatim>\<open>columns\<close> and
  \<^verbatim>\<open>ready\<close>. Of the environment the state records whether the \<^verbatim>\<open>ResizeObserver\<close> has a
  target (\<open>observing\<close>), whether a call of the debounced \<^verbatim>\<open>onResize\<close> is waiting for its
  timer (\<open>pending\<close>), and where the instance is in its life cycle.
\<close>

datatype phase = Created | Mounted | Destroyed

record component =
  monster :: monster
  plugin :: plugin
  statblock :: "StatblockItem list"
  layout :: layout
  monsterStore :: monster
  maxColumns :: jsnum
  columnWidth :: jsnum
  canDice :: bool
  canRender :: bool
  columns :: jsnum
  ready :: bool
  observing :: bool
  pending :: bool
  phase :: phase

text \<open>\<^verbatim>\<open>container.clientWidth\<close> throws when \<^verbatim>\<open>container\<close> is not bound to an element.\<close>

datatype error = TypeError

text \<open>What the template shows inside the container once \<^verbatim>\<open>ready\<close> holds.\<close>

record view =
  view_classes :: "string list"
  view_monster :: monster
  view_columns :: jsnum
  view_maxColumns :: jsnum

section \<open>Resolved parameters\<close>

text \<open>
  \<^verbatim>\<open>
  const maxColumns =
      !isNaN(Number(monster.columns ?? layout.columns)) &&
      Number(monster.columns ?? layout.columns) > 0
          ? Number(monster.columns ?? layout.columns)
          : 2;
  \<close>
\<close>

definition maxColumns :: "monster \<Rightarrow> layout \<Rightarrow> jsnum" where
  "maxColumns m l =
     (if \<not> isNaN (Number (nullish (monster.columns m) (layout.columns l))) \<and>
         js_less (Fin 0) (Number (nullish (monster.columns m) (layout.columns l)))
      then Number (nullish (monster.columns m) (layout.columns l))
      else Fin 2)"

text \<open>
  \<^verbatim>\<open>
  const monsterColumnWidth = Number(
      `${monster.columnWidth}`.replace(/\D/g, "")
  );
  const columnWidth =
      !isNaN(monsterColumnWidth ?? layout.columnWidth) &&
      (monsterColumnWidth ?? layout.columnWidth) > 0
          ? monsterColumnWidth
          : 400;
  \<close>
  \<^verbatim>\<open>monsterColumnWidth\<close> is always a number, so it is \<open>Some\<close> on the left of \<^verbatim>\<open>??\<close>.
\<close>

definition monsterColumnWidth :: "monster \<Rightarrow> jsnum" where
  "monsterColumnWidth m =
     Number_digits (strip_non_digits (template_literal (monster.columnWidth m)))"

definition columnWidth :: "monster \<Rightarrow> layout \<Rightarrow> jsnum" where
  "columnWidth m l =
     (if \<not> isNaN (Number (nullish (Some (monsterColumnWidth m)) (layout.columnWidth l))) \<and>
         js_less (Fin 0) (Number (nullish (Some (monsterColumnWidth m)) (layout.columnWidth l)))
      then monsterColumnWidth m
      else Fin 400)"

text \<open>
  \<^verbatim>\<open>
  const canDice =
      plugin.canUseDiceRoller && (monster.dice ?? plugin.settings.useDice);
  const canRender = monster.render ?? plugin.settings.renderDice;
  \<close>
\<close>

definition canDice :: "monster \<Rightarrow> plugin \<Rightarrow> bool" where
  "canDice m p = (canUseDiceRoller p \<and> nullish_or (dice m) (useDice p))"

definition canRender :: "monster \<Rightarrow> plugin \<Rightarrow> bool" where
  "canRender m p = nullish_or (render m) (renderDice p)"

text \<open>
  The resolution rules as the design document words them: the creature's value when it is
  a positive number, else the layout's when that is a positive number, else the fallback.
\<close>

definition positive_number :: "jsnum \<Rightarrow> bool" where
  "positive_number x = (\<not> isNaN x \<and> js_less (Fin 0) x)"

definition spec_maxColumns :: "monster \<Rightarrow> layout \<Rightarrow> jsnum" where
  "spec_maxColumns m l =
     (if positive_number (Number (monster.columns m)) then Number (monster.columns m)
      else if positive_number (Number (layout.columns l)) then Number (layout.columns l)
      else Fin 2)"

definition spec_columnWidth :: "monster \<Rightarrow> layout \<Rightarrow> jsnum" where
  "spec_columnWidth m l =
     (if positive_number (monsterColumnWidth m) then monsterColumnWidth m
      else if positive_number (Number (layout.columnWidth l)) then Number (layout.columnWidth l)
      else Fin 400)"

section \<open>The component\<close>

text \<open>
  The script body, run once when the instance is created. \<^verbatim>\<open>$: columns = maxColumns\<close> and
  \<^verbatim>\<open>$: ready = false\<close> depend on nothing that changes, so they run once, here.
\<close>

definition init :: "monster \<Rightarrow> layout \<Rightarrow> plugin \<Rightarrow> StatblockItem list \<Rightarrow> component" where
  "init m l p sb =
     \<lparr>component.monster = m, component.plugin = p, component.statblock = sb,
      component.layout = l, component.monsterStore = m,
      component.maxColumns = maxColumns m l, component.columnWidth = columnWidth m l,
      component.canDice = canDice m p, component.canRender = canRender m p,
      component.columns = maxColumns m l, component.ready = False,
      component.observing = False, component.pending = False, component.phase = Created\<rparr>"

text \<open>
  \<^verbatim>\<open>monster.forceColumns ?? layout.forceColumns\<close>, read from the current props each time
  \<^verbatim>\<open>setColumns\<close> runs.
\<close>

definition force_active :: "component \<Rightarrow> bool" where
  "force_active s =
     truthy (nullish (monster.forceColumns (component.monster s))
                     (layout.forceColumns (component.layout s)))"

text \<open>
  \<^verbatim>\<open>
  const setColumns = () => {
      if (monster.forceColumns ?? layout.forceColumns) {
          columns = maxColumns;
          observer.disconnect();
          return;
      }
      const width = container.clientWidth;
      columns = Math.min(
          Math.max(Math.floor(width / columnWidth), 1),
          maxColumns
      );
  };
  \<close>
  The first argument is what reading \<^verbatim>\<open>container.clientWidth\<close> gives: an integer, or
  \<open>None\<close> when \<^verbatim>\<open>container\<close> is not bound, in which case the read throws.
\<close>

definition setColumns :: "int option \<Rightarrow> component \<Rightarrow> error + component" where
  "setColumns clientWidth s =
     (if force_active s
      then Inr (s\<lparr>component.columns := component.maxColumns s, component.observing := False\<rparr>)
      else case clientWidth of
             None \<Rightarrow> Inl TypeError
           | Some width \<Rightarrow>
               Inr (s\<lparr>component.columns :=
                        Math_min
                          (Math_max
                             (Math_floor (js_div (Fin (of_int width)) (component.columnWidth s)))
                             (Fin 1))
                          (component.maxColumns s)\<rparr>))"

text \<open>
  \<^verbatim>\<open>
  const onResize = debounce(
      () => {
          setColumns();
          if (!ready) ready = true;
      },
      100,
      false
  );
  \<close>
  Calling the debounced function only arms its timer; the body runs when the timer fires.
  An exception in the body leaves the variables as they were.
\<close>

definition onResize :: "component \<Rightarrow> component" where
  "onResize s = s\<lparr>component.pending := True\<rparr>"

definition onResize_body :: "int option \<Rightarrow> component \<Rightarrow> error + component" where
  "onResize_body clientWidth s =
     (case setColumns clientWidth s of
        Inl e \<Rightarrow> Inl e
      | Inr s' \<Rightarrow> Inr (if \<not> component.ready s' then s'\<lparr>component.ready := True\<rparr> else s'))"

definition timer_fires :: "int option \<Rightarrow> component \<Rightarrow> component" where
  "timer_fires clientWidth s =
     (case onResize_body clientWidth (s\<lparr>component.pending := False\<rparr>) of
        Inl e \<Rightarrow> s\<lparr>component.pending := False\<rparr>
      | Inr s' \<Rightarrow> s')"

text \<open>
  \<^verbatim>\<open>
  onMount(() => {
      onResize();
      observer.observe(container);
  });

  onDestroy(() => {
      observer.disconnect();
  });
  \<close>
\<close>

definition onMount :: "component \<Rightarrow> component" where
  "onMount s = (onResize s)\<lparr>component.observing := True, component.phase := Mounted\<rparr>"

definition onDestroy :: "component \<Rightarrow> component" where
  "onDestroy s = s\<lparr>component.observing := False, component.phase := Destroyed\<rparr>"

text \<open>
  The parent replaces the \<^verbatim>\<open>monster\<close> prop; \<^verbatim>\<open>$: $monsterStore = monster\<close> reruns.
\<close>

definition set_monster :: "monster \<Rightarrow> component \<Rightarrow> component" where
  "set_monster m s = s\<lparr>component.monster := m, component.monsterStore := m\<rparr>"

text \<open>
  The events of an instance's life. \<open>Mount\<close> happens once, on a created instance.
  \<open>Resize\<close> is the \<^verbatim>\<open>ResizeObserver\<close> calling \<^verbatim>\<open>onResize\<close>, which it does only while
  it observes a target. \<open>Timer w\<close> is the debounce timer firing, with the result of reading
  \<^verbatim>\<open>container.clientWidth\<close> at that moment; it needs a pending call, and while the instance
  is mounted the container is bound, so the read gives a width. \<open>SetMonster\<close> and \<open>Destroy\<close>
  need an instance that is not destroyed yet. \<open>step\<close> is \<open>None\<close> for an event that cannot
  happen in the state.
\<close>

datatype event = Mount | Resize | Timer "int option" | SetMonster monster | Destroy

fun step :: "event \<Rightarrow> component \<Rightarrow> component option" where
  "step Mount s = (if component.phase s = Created then Some (onMount s) else None)"
| "step Resize s = (if component.observing s then Some (onResize s) else None)"
| "step (Timer w) s =
     (if component.pending s \<and> \<not> (component.phase s = Mounted \<and> w = None)
      then Some (timer_fires w s) else None)"
| "step (SetMonster m) s =
     (if component.phase s = Destroyed then None else Some (set_monster m s))"
| "step Destroy s =
     (if component.phase s = Destroyed then None else Some (onDestroy s))"

fun run :: "component \<Rightarrow> event list \<Rightarrow> component option" where
  "run s [] = Some s"
| "run s (e # es) = (case step e s of None \<Rightarrow> None | Some s' \<Rightarrow> run s' es)"

text \<open>
  \<^verbatim>\<open>
  const getNestedLayouts = (blocks: StatblockItem[]): string[] => {
      const classes: string[] = [];
      for (const block of blocks) {
          if (block.type == "layout") {
              const layout = plugin.manager
                  .getAllLayouts()
                  .find((l) => l.id == block.layout);
              if (layout) {
                  classes.push(slugifyLayoutForCss(layout.name));
              }
          }
          if ("nested" in block) {
              classes.push(...getNestedLayouts(block.nested));
          }
      }
      return classes;
  };
  \<close>
  \<^verbatim>\<open>slugifyLayoutForCss\<close> (\<^verbatim>\<open>src/util/util\<close>) is a parameter: a function of the name and
  of the optional second argument.
\<close>

fun getNestedLayouts ::
  "(string \<Rightarrow> string option \<Rightarrow> string) \<Rightarrow> layout list \<Rightarrow> StatblockItem list \<Rightarrow> string list" where
  "getNestedLayouts slugifyLayoutForCss registry [] = []"
| "getNestedLayouts slugifyLayoutForCss registry (Item type block_layout nested # blocks) =
     (if type = ''layout''
      then (case find (\<lambda>l. Some (layout_id l) = block_layout) registry of
              Some l \<Rightarrow> [slugifyLayoutForCss (layout.name l) None]
            | None \<Rightarrow> [])
      else [])
     @ (case nested of
          Some children \<Rightarrow> getNestedLayouts slugifyLayoutForCss registry children
        | None \<Rightarrow> [])
     @ getNestedLayouts slugifyLayoutForCss registry blocks"

text \<open>
  \<^verbatim>\<open>
  $: name = slugifyLayoutForCss(monster.name ?? "", "no-name");
  $: layoutName = slugifyLayoutForCss(layout.name, "no-layout");
  $: classes = [name, layoutName, ...getNestedLayouts(statblock)].filter(
      (n) => n?.length
  );
  \<close>
\<close>

definition classes :: "(string \<Rightarrow> string option \<Rightarrow> string) \<Rightarrow> component \<Rightarrow> string list" where
  "classes slugifyLayoutForCss s =
     filter (\<lambda>n. n \<noteq> [])
       ([slugifyLayoutForCss (nullish_or (monster.name (component.monster s)) '''') (Some ''no-name''),
         slugifyLayoutForCss (layout.name (component.layout s)) (Some ''no-layout'')]
        @ getNestedLayouts slugifyLayoutForCss (getAllLayouts (component.plugin s))
            (component.statblock s))"

text \<open>
  The template: the container is always there, the statblock inside it only
  \<^verbatim>\<open>{#if ready}\<close>.
\<close>

definition template :: "(string \<Rightarrow> string option \<Rightarrow> string) \<Rightarrow> component \<Rightarrow> view option" where
  "template slugifyLayoutForCss s =
     (if component.ready s
      then Some \<lparr>view_classes = classes slugifyLayoutForCss s,
                 view_monster = component.monsterStore s,
                 view_columns = component.columns s,
                 view_maxColumns = component.maxColumns s\<rparr>
      else None)"

section \<open>Notions used in the statements\<close>

text \<open>
  \<open>clamp x lo hi\<close> as it is usually written in JavaScript: the lower bound is applied
  first, then the upper bound.
\<close>

definition clamp :: "jsnum \<Rightarrow> jsnum \<Rightarrow> jsnum \<Rightarrow> jsnum" where
  "clamp x lo hi = Math_min (Math_max x lo) hi"

text \<open>
  What holds of an instance that has not been destroyed: a debounced call is pending, or
  the observer has a target, only once the instance is mounted.
\<close>

definition alive :: "component \<Rightarrow> bool" where
  "alive s = (component.phase s \<noteq> Destroyed
      \<and> (component.pending s \<longrightarrow> component.phase s = Mounted)
      \<and> (component.observing s \<longrightarrow> component.phase s = Mounted))"

text \<open>The bounds on the column count \<open>c\<close>, given the maximum \<open>mc\<close>.\<close>

definition columns_ok :: "jsnum \<Rightarrow> jsnum \<Rightarrow> bool" where
  "columns_ok mc c =
     (js_less (Fin 0) c \<and> js_le c mc \<and> (js_le (Fin 1) mc \<longrightarrow> js_le (Fin 1) c))"

subsection \<open>Sample inputs\<close>

definition goblin :: monster where
  "goblin = \<lparr>monster.name = Some ''Goblin'', dice = None, render = None,
             monster.columns = Some (Fin 3), monster.columnWidth = Some (WStr ''300px''),
             monster.forceColumns = None\<rparr>"

definition basic_layout :: layout where
  "basic_layout = \<lparr>layout_id = ''basic'', layout.name = ''Basic 5e Layout'',
                   layout.columns = Some (Fin 2), layout.columnWidth = Some (Fin 400),
                   layout.forceColumns = None\<rparr>"

definition wide_layout :: layout where
  "wide_layout = \<lparr>layout_id = ''wide'', layout.name = ''Wide'',
                  layout.columns = Some (Fin 4), layout.columnWidth = Some (Fin 300),
                  layout.forceColumns = Some True\<rparr>"

definition sample_plugin :: plugin where
  "sample_plugin = \<lparr>canUseDiceRoller = True, useDice = True, renderDice = False,
                    getAllLayouts = [basic_layout, wide_layout]\<rparr>"

definition sample_blocks :: "StatblockItem list" where
  "sample_blocks =
     [Item ''group'' None (Some [Item ''layout'' (Some ''wide'') None]),
      Item ''property'' None None]"

text \<open>A stand-in for \<^verbatim>\<open>slugifyLayoutForCss\<close> in the examples: the name, or the fallback.\<close>

definition sample_slugify :: "string \<Rightarrow> string option \<Rightarrow> string" where
  "sample_slugify n fallback = (if n = [] then nullish_or fallback [] else n)"

section \<open>Auxiliary facts\<close>

subsection \<open>Runs\<close>

lemma run_append:
  "run s (es @ es') = (case run s es of None \<Rightarrow> None | Some s1 \<Rightarrow> run s1 es')"
  by (induction es arbitrary: s) (auto split: option.splits)

lemma run_invariant:
  assumes "run s es = Some s'" and "P s"
    and "\<And>e a b. P a \<Longrightarrow> step e a = Some b \<Longrightarrow> P b"
  shows "P s'"
  using assms(1,2)
proof (induction es arbitrary: s)
  case Nil
  then show ?case by simp
next
  case (Cons e es)
  then obtain s1 where s1: "step e s = Some s1" "run s1 es = Some s'"
    by (auto split: option.splits)
  from assms(3)[OF Cons.prems(2) s1(1)] have "P s1" .
  from Cons.IH[OF s1(2) this] show ?case .
qed

subsection \<open>The resolved numbers\<close>

lemma monsterColumnWidth_Fin: "\<exists>n::nat. monsterColumnWidth m = Fin (of_nat n)"
  by (simp add: monsterColumnWidth_def Number_digits_def)

lemma columnWidth_positive: "\<exists>c. columnWidth m l = Fin c \<and> 0 < c"
proof -
  obtain n :: nat where n: "monsterColumnWidth m = Fin (of_nat n)"
    using monsterColumnWidth_Fin by blast
  show ?thesis by (simp add: columnWidth_def n)
qed

lemma maxColumns_positive: "positive_number (maxColumns m l)"
  by (simp add: maxColumns_def positive_number_def)

lemma positive_number_cases:
  "positive_number x \<longleftrightarrow> x = PInf \<or> (\<exists>c. x = Fin c \<and> 0 < c)"
  by (cases x) (simp_all add: positive_number_def)

lemma clamp_bounds:
  assumes "positive_number mc" and "0 < c"
  shows "columns_ok mc (Math_min (Math_max (Math_floor (js_div (Fin a) (Fin c))) (Fin 1)) mc)"
  using assms
  by (auto simp: columns_ok_def positive_number_cases Math_min_def Math_max_def)

lemma columns_ok_refl: "positive_number mc \<Longrightarrow> columns_ok mc mc"
  by (auto simp: columns_ok_def positive_number_cases)

subsection \<open>The debounced body\<close>

lemma force_active_pending [simp]:
  "force_active (s\<lparr>component.pending := b\<rparr>) = force_active s"
  by (simp add: force_active_def)

lemma timer_fires_forced:
  "force_active s \<Longrightarrow>
   timer_fires w s =
     s\<lparr>component.pending := False, component.columns := component.maxColumns s,
       component.observing := False, component.ready := True\<rparr>"
  by (simp add: timer_fires_def onResize_body_def setColumns_def)

lemma timer_fires_width:
  "\<not> force_active s \<Longrightarrow>
   timer_fires (Some width) s =
     s\<lparr>component.pending := False,
       component.columns :=
         Math_min (Math_max (Math_floor (js_div (Fin (of_int width)) (component.columnWidth s)))
                            (Fin 1))
                  (component.maxColumns s),
       component.ready := True\<rparr>"
  by (simp add: timer_fires_def onResize_body_def setColumns_def)

lemma timer_fires_throws:
  "\<not> force_active s \<Longrightarrow> timer_fires None s = s\<lparr>component.pending := False\<rparr>"
  by (simp add: timer_fires_def onResize_body_def setColumns_def)

subsection \<open>What no event changes\<close>

lemma step_frame:
  assumes "step e s = Some s'"
  shows "component.maxColumns s' = component.maxColumns s"
    and "component.columnWidth s' = component.columnWidth s"
    and "component.canDice s' = component.canDice s"
    and "component.canRender s' = component.canRender s"
    and "component.layout s' = component.layout s"
    and "component.plugin s' = component.plugin s"
    and "component.statblock s' = component.statblock s"
  using assms
  by (cases e; auto simp: onMount_def onResize_def timer_fires_def onResize_body_def
        setColumns_def onDestroy_def set_monster_def split: if_splits option.splits sum.splits)+

lemma run_frame:
  assumes "run s es = Some s'"
  shows "component.maxColumns s' = component.maxColumns s
       \<and> component.columnWidth s' = component.columnWidth s
       \<and> component.canDice s' = component.canDice s
       \<and> component.canRender s' = component.canRender s
       \<and> component.layout s' = component.layout s
       \<and> component.plugin s' = component.plugin s
       \<and> component.statblock s' = component.statblock s"
  by (rule run_invariant[OF assms]) (simp_all add: step_frame)

lemma run_init_frame:
  assumes "run (init m l p sb) es = Some s"
  shows "component.maxColumns s = maxColumns m l"
    and "component.columnWidth s = columnWidth m l"
    and "component.canDice s = canDice m p"
    and "component.canRender s = canRender m p"
    and "component.layout s = l"
    and "component.plugin s = p"
    and "component.statblock s = sb"
  using run_frame[OF assms] by (simp_all add: init_def)

subsection \<open>The column count stays within its bounds\<close>

lemma step_columns_ok:
  assumes "step e s = Some s'"
    and "component.maxColumns s = mc" and "positive_number mc"
    and "component.columnWidth s = Fin c" and "0 < c"
    and "columns_ok mc (component.columns s)"
  shows "columns_ok mc (component.columns s')"
proof (cases e)
  case (Timer w)
  show ?thesis
  proof (cases "force_active s")
    case True
    with Timer assms show ?thesis
      by (auto simp: timer_fires_forced columns_ok_refl split: if_splits)
  next
    case False
    show ?thesis
    proof (cases w)
      case None
      with False Timer assms show ?thesis
        by (auto simp: timer_fires_throws split: if_splits)
    next
      case (Some width)
      from clamp_bounds[OF assms(3,5), of "of_int width"] False Timer Some assms
      show ?thesis
        by (auto simp: timer_fires_width split: if_splits)
    qed
  qed
qed (use assms in \<open>auto simp: onMount_def onResize_def onDestroy_def set_monster_def split: if_splits\<close>)

subsection \<open>Before and after destruction\<close>

lemma step_alive:
  assumes "step e s = Some s'" and "e \<noteq> Destroy" and "alive s"
  shows "alive s' \<and> component.ready s' = (component.ready s \<or> (\<exists>w. e = Timer w))"
proof (cases e)
  case (Timer w)
  show ?thesis
  proof (cases "force_active s")
    case True
    with Timer assms show ?thesis
      by (auto simp: alive_def timer_fires_forced split: if_splits)
  next
    case False
    with Timer assms obtain width where "w = Some width"
      by (cases w) (auto simp: alive_def split: if_splits)
    with False Timer assms show ?thesis
      by (auto simp: alive_def timer_fires_width split: if_splits)
  qed
qed (use assms in \<open>auto simp: alive_def onMount_def onResize_def set_monster_def split: if_splits\<close>)

lemma run_alive:
  assumes "run s es = Some s'" and "Destroy \<notin> set es" and "alive s"
  shows "alive s' \<and> component.ready s' = (component.ready s \<or> (\<exists>w. Timer w \<in> set es))"
  using assms
proof (induction es arbitrary: s)
  case Nil
  then show ?case by simp
next
  case (Cons e es)
  then obtain s1 where s1: "step e s = Some s1" "run s1 es = Some s'"
    by (auto split: option.splits)
  from Cons.prems have ne: "e \<noteq> Destroy" "Destroy \<notin> set es" by auto
  from step_alive[OF s1(1) ne(1) Cons.prems(3)]
  have a1: "alive s1" "component.ready s1 = (component.ready s \<or> (\<exists>w. e = Timer w))" by auto
  from Cons.IH[OF s1(2) ne(2) a1(1)] a1(2) show ?case by auto
qed

lemma step_destroyed:
  assumes "step e s = Some s'" and "component.phase s = Destroyed"
    and "\<not> component.observing s"
  shows "component.phase s' = Destroyed \<and> \<not> component.observing s' \<and> e \<noteq> Resize"
proof (cases e)
  case (Timer w)
  with assms show ?thesis
    by (cases "force_active s"; cases w)
       (auto simp: timer_fires_forced timer_fires_width timer_fires_throws split: if_splits)
qed (use assms in \<open>auto split: if_splits\<close>)

lemma run_destroyed:
  assumes "run s es = Some s'" and "component.phase s = Destroyed"
    and "\<not> component.observing s"
  shows "component.phase s' = Destroyed \<and> \<not> component.observing s' \<and> Resize \<notin> set es"
  using assms
proof (induction es arbitrary: s)
  case Nil
  then show ?case by simp
next
  case (Cons e es)
  then obtain s1 where s1: "step e s = Some s1" "run s1 es = Some s'"
    by (auto split: option.splits)
  from step_destroyed[OF s1(1) Cons.prems(2,3)] Cons.IH[OF s1(2)] show ?case by auto
qed

section \<open>The claims\<close>

subsection \<open>C1: the maximum column count\<close>

text \<open>
  Claim C1, as the code has it. The creature's \<^verbatim>\<open>columns\<close> is taken whenever it is present,
  the layout's default only when the creature has none; the value taken is the result when
  it is a positive number, and the result is 2 otherwise. A creature value that is present
  but not a positive number therefore gives 2, not the layout's default. With the creature's
  \<^verbatim>\<open>columns\<close> at 3 and the layout's default at 2 the result is 3.
\<close>

theorem maxColumns_resolution:
  "maxColumns m l =
     (case monster.columns m of
        Some c \<Rightarrow> if positive_number c then c else Fin 2
      | None \<Rightarrow>
          (case layout.columns l of
             Some d \<Rightarrow> if positive_number d then d else Fin 2
           | None \<Rightarrow> Fin 2))
   \<and> maxColumns (m\<lparr>monster.columns := Some (Fin 3)\<rparr>) (l\<lparr>layout.columns := Some (Fin 2)\<rparr>) = Fin 3"
  by (simp add: maxColumns_def positive_number_def split: option.splits)

text \<open>The goblin asks for 3 columns, the basic layout for 2: the result is 3.\<close>

theorem maxColumns_resolution_witness:
  "maxColumns goblin basic_layout = Fin 3"
proof -
  have "monster.columns goblin = Some (Fin 3)" "positive_number (Fin 3)"
    by (simp_all add: goblin_def positive_number_def)
  with maxColumns_resolution[of goblin basic_layout] show ?thesis by simp
qed

text \<open>
  C1 as worded (creature's value if a positive number, else the layout's if a positive
  number, else 2) fails for a creature with \<^verbatim>\<open>columns: 0\<close> under a layout whose default is
  4: the component resolves 2, the wording gives 4.
\<close>

theorem maxColumns_spec_counterexample:
  "maxColumns (goblin\<lparr>monster.columns := Some (Fin 0)\<rparr>) wide_layout = Fin 2
   \<and> spec_maxColumns (goblin\<lparr>monster.columns := Some (Fin 0)\<rparr>) wide_layout = Fin 4"
  by code_simp

subsection \<open>C2: the column width\<close>

text \<open>
  Claim C2: the column width is the creature's \<^verbatim>\<open>columnWidth\<close> with the non-digits removed
  when that is a positive number, else the layout's default when that is a positive number,
  else 400. The component never reaches the layout's default: \<^verbatim>\<open>monsterColumnWidth\<close> is
  always a number, so \<^verbatim>\<open>monsterColumnWidth ?? layout.columnWidth\<close> is always
  \<^verbatim>\<open>monsterColumnWidth\<close>. For a creature without \<^verbatim>\<open>columnWidth\<close> under a layout whose default
  is 300 the component resolves 400, where C2 gives 300.
\<close>

theorem columnWidth_ignores_layout_default:
  "columnWidth (goblin\<lparr>monster.columnWidth := None\<rparr>) wide_layout = Fin 400
   \<and> spec_columnWidth (goblin\<lparr>monster.columnWidth := None\<rparr>) wide_layout = Fin 300"
  by code_simp

subsection \<open>C3: forced columns\<close>

text \<open>
  Claim C3, as the code has it. Force-columns is in effect when
  \<^verbatim>\<open>monster.forceColumns ?? layout.forceColumns\<close> is true: the creature's flag when the
  creature has one, the layout's otherwise. Whenever it is in effect, a column recomputation
  sets the column count to the resolved maximum whatever the container's width (or even
  without a bound container), and disconnects the observer, after which the observer
  delivers no resize.
\<close>

theorem forced_columns_pinned:
  assumes "run (init m l p sb) es = Some s" and "force_active s"
    and "step (Timer w) s = Some s'"
  shows "component.columns s' = maxColumns m l \<and> \<not> component.observing s'
       \<and> step Resize s' = None"
  using assms(2,3) run_init_frame(1)[OF assms(1)]
  by (auto simp: timer_fires_forced split: if_splits)

text \<open>
  A goblin that forces its 3 columns, in a container 100 wide (less than one column of
  300): the count stays 3 and the observer is disconnected.
\<close>

theorem forced_columns_pinned_witness:
  "\<exists>s s'. run (init (goblin\<lparr>monster.forceColumns := Some True\<rparr>) basic_layout
                   sample_plugin sample_blocks) [Mount, Resize] = Some s
     \<and> force_active s
     \<and> step (Timer (Some 100)) s = Some s'
     \<and> component.columns s' = Fin 3 \<and> \<not> component.observing s' \<and> step Resize s' = None"
proof -
  let ?i = "init (goblin\<lparr>monster.forceColumns := Some True\<rparr>) basic_layout
              sample_plugin sample_blocks"
  let ?r = "run ?i [Mount, Resize]"
  let ?t = "step (Timer (Some 100)) (the ?r)"
  have r: "?r = Some (the ?r)" by code_simp
  have f: "force_active (the ?r)" by code_simp
  have t: "?t = Some (the ?t)" by code_simp
  have m: "maxColumns (goblin\<lparr>monster.forceColumns := Some True\<rparr>) basic_layout = Fin 3"
    by code_simp
  from forced_columns_pinned[OF r f t] m r f t show ?thesis by metis
qed

text \<open>
  C3 as worded (force-columns set by the creature or by the layout) fails when the layout
  sets the flag and the creature declares \<^verbatim>\<open>forceColumns: false\<close>: in a container 100 wide
  the count becomes 1, not the maximum 3, and the observer keeps its target.
\<close>

theorem force_columns_counterexample:
  "layout.forceColumns wide_layout = Some True
   \<and> maxColumns (goblin\<lparr>monster.forceColumns := Some False\<rparr>) wide_layout = Fin 3
   \<and> map_option component.columns
        (run (init (goblin\<lparr>monster.forceColumns := Some False\<rparr>) wide_layout
                sample_plugin sample_blocks)
             [Mount, Timer (Some 100)]) = Some (Fin 1)
   \<and> map_option component.observing
        (run (init (goblin\<lparr>monster.forceColumns := Some False\<rparr>) wide_layout
                sample_plugin sample_blocks)
             [Mount, Timer (Some 100)]) = Some True"
  by code_simp

subsection \<open>C4: reflow on resize\<close>

text \<open>
  Claim C4: each time the debounced resize handler runs while force-columns is not in
  effect, the column count becomes \<open>clamp (floor (width / columnWidth)) 1 maxColumns\<close>,
  where \<open>width\<close> is the container's client width at that moment and \<open>columnWidth\<close>,
  \<open>maxColumns\<close> are the resolved parameters.
\<close>

theorem resize_recomputes_columns:
  assumes "run (init m l p sb) es = Some s" and "\<not> force_active s"
    and "step (Timer (Some width)) s = Some s'"
  shows "component.columns s' =
           clamp (Math_floor (js_div (Fin (of_int width)) (columnWidth m l))) (Fin 1)
                 (maxColumns m l)"
  using assms(2,3) run_init_frame(1,2)[OF assms(1)]
  by (auto simp: timer_fires_width clamp_def split: if_splits)

text \<open>The goblin (3 columns of 300) in a container 750 wide gets 2 columns.\<close>

theorem resize_recomputes_columns_witness:
  "\<exists>s s'. run (init goblin basic_layout sample_plugin sample_blocks) [Mount, Resize] = Some s
     \<and> \<not> force_active s
     \<and> step (Timer (Some 750)) s = Some s'
     \<and> component.columns s' = clamp (Math_floor (js_div (Fin 750) (Fin 300))) (Fin 1) (Fin 3)
     \<and> component.columns s' = Fin 2"
proof -
  let ?i = "init goblin basic_layout sample_plugin sample_blocks"
  let ?r = "run ?i [Mount, Resize]"
  let ?t = "step (Timer (Some 750)) (the ?r)"
  have r: "?r = Some (the ?r)" by code_simp
  have f: "\<not> force_active (the ?r)" by code_simp
  have t: "?t = Some (the ?t)" by code_simp
  have m: "maxColumns goblin basic_layout = Fin 3" "columnWidth goblin basic_layout = Fin 300"
    "clamp (Math_floor (js_div (Fin 750) (Fin 300))) (Fin 1) (Fin 3) = Fin 2"
    by code_simp+
  from resize_recomputes_columns[OF r f t] m have "component.columns (the ?t) = Fin 2"
    "component.columns (the ?t) = clamp (Math_floor (js_div (Fin 750) (Fin 300))) (Fin 1) (Fin 3)"
    by simp_all
  with r f t show ?thesis by metis
qed

subsection \<open>C5: dice parsing and rendering\<close>

text \<open>
  Claim C5: the creature's \<^verbatim>\<open>dice\<close> and \<^verbatim>\<open>render\<close>, when present, decide whether dice are
  parsed and rendered, whatever the defaults say; when absent the defaults
  (\<^verbatim>\<open>settings.useDice\<close>, \<^verbatim>\<open>settings.renderDice\<close>) decide. Dice parsing needs the dice roller
  to be available in either case.
\<close>

theorem dice_render_overrides:
  "canRender m p = (case render m of Some b \<Rightarrow> b | None \<Rightarrow> renderDice p)
   \<and> canDice m p =
       (canUseDiceRoller p \<and> (case dice m of Some b \<Rightarrow> b | None \<Rightarrow> useDice p))"
  by (simp add: canRender_def canDice_def split: option.splits)

text \<open>
  With dice parsing on and rendering off by default, a goblin declaring \<^verbatim>\<open>dice: false\<close> and
  \<^verbatim>\<open>render: true\<close> gets the opposite.
\<close>

theorem dice_render_overrides_witness:
  "useDice sample_plugin \<and> \<not> renderDice sample_plugin
   \<and> \<not> canDice (goblin\<lparr>dice := Some False, render := Some True\<rparr>) sample_plugin
   \<and> canRender (goblin\<lparr>dice := Some False, render := Some True\<rparr>) sample_plugin
   \<and> canDice goblin sample_plugin \<and> \<not> canRender goblin sample_plugin"
  using dice_render_overrides[of "goblin\<lparr>dice := Some False, render := Some True\<rparr>" sample_plugin]
    dice_render_overrides[of goblin sample_plugin]
  by (simp add: goblin_def sample_plugin_def)

subsection \<open>C6: the ready flag\<close>

text \<open>
  Claim C6: from its creation and as long as the instance is not destroyed, \<^verbatim>\<open>ready\<close> is
  true exactly when the debounced resize handler has run at least once: false until the
  first run, true from then on. The template shows no statblock exactly while \<^verbatim>\<open>ready\<close> is
  false.
\<close>

theorem ready_after_first_measurement:
  assumes "run (init m l p sb) es = Some s" and "Destroy \<notin> set es"
  shows "component.ready s = (\<exists>w. Timer w \<in> set es)
       \<and> (template slug s = None) = (\<not> component.ready s)"
proof -
  have "alive (init m l p sb)" "\<not> component.ready (init m l p sb)"
    by (simp_all add: alive_def init_def)
  with run_alive[OF assms] show ?thesis
    by (simp add: template_def)
qed

text \<open>
  Mounted and notified of a resize, but before the timer fires, the goblin's statblock is
  not shown; once the timer has fired it is, also after later events.
\<close>

theorem ready_after_first_measurement_witness:
  "\<exists>s s'. run (init goblin basic_layout sample_plugin sample_blocks) [Mount, Resize] = Some s
     \<and> \<not> component.ready s \<and> template sample_slugify s = None
     \<and> run (init goblin basic_layout sample_plugin sample_blocks)
          [Mount, Resize, Timer (Some 750), Resize, SetMonster goblin] = Some s'
     \<and> component.ready s' \<and> template sample_slugify s' \<noteq> None"
proof -
  let ?i = "init goblin basic_layout sample_plugin sample_blocks"
  let ?r = "run ?i [Mount, Resize]"
  let ?r' = "run ?i [Mount, Resize, Timer (Some 750), Resize, SetMonster goblin]"
  have r: "?r = Some (the ?r)" by code_simp
  have r': "?r' = Some (the ?r')" by code_simp
  have d: "Destroy \<notin> set [Mount, Resize]"
    "Destroy \<notin> set [Mount, Resize, Timer (Some 750), Resize, SetMonster goblin]" by simp_all
  from ready_after_first_measurement[OF r d(1), of sample_slugify]
  have a: "\<not> component.ready (the ?r)" "template sample_slugify (the ?r) = None" by auto
  from ready_after_first_measurement[OF r' d(2), of sample_slugify]
  have b: "component.ready (the ?r')" "template sample_slugify (the ?r') \<noteq> None" by auto
  from a b r r' show ?thesis by metis
qed

subsection \<open>C8: teardown\<close>

text \<open>
  Claim C8: when the component is destroyed the observer is disconnected, so that no resize
  callback reaches the component once it is removed. \<^verbatim>\<open>onDestroy\<close> does disconnect the
  observer, but it does not cancel the debounced \<^verbatim>\<open>onResize\<close>: a call that is pending when
  the instance is destroyed still runs when its timer fires. Mounted and destroyed before the
  timer fires, a goblin that forces its columns has its handler run on the destroyed instance,
  assigning \<^verbatim>\<open>columns\<close> and \<^verbatim>\<open>ready\<close>; for a goblin that does not, the handler reads
  \<^verbatim>\<open>container.clientWidth\<close> of a container that is no longer bound, and throws.
\<close>

theorem debounced_handler_runs_after_destroy:
  "map_option component.phase
     (run (init (goblin\<lparr>monster.forceColumns := Some True\<rparr>) basic_layout
             sample_plugin sample_blocks) [Mount, Destroy]) = Some Destroyed
   \<and> map_option component.observing
       (run (init (goblin\<lparr>monster.forceColumns := Some True\<rparr>) basic_layout
               sample_plugin sample_blocks) [Mount, Destroy]) = Some False
   \<and> map_option component.pending
       (run (init (goblin\<lparr>monster.forceColumns := Some True\<rparr>) basic_layout
               sample_plugin sample_blocks) [Mount, Destroy]) = Some True
   \<and> map_option component.ready
       (run (init (goblin\<lparr>monster.forceColumns := Some True\<rparr>) basic_layout
               sample_plugin sample_blocks) [Mount, Destroy]) = Some False
   \<and> map_option component.ready
       (run (init (goblin\<lparr>monster.forceColumns := Some True\<rparr>) basic_layout
               sample_plugin sample_blocks) [Mount, Destroy, Timer None]) = Some True
   \<and> map_option component.columns
       (run (init (goblin\<lparr>monster.forceColumns := Some True\<rparr>) basic_layout
               sample_plugin sample_blocks) [Mount, Destroy, Timer None]) = Some (Fin 3)
   \<and> map_option component.pending
       (run (init goblin basic_layout sample_plugin sample_blocks) [Mount, Destroy])
       = Some True
   \<and> map_option (setColumns None)
       (run (init goblin basic_layout sample_plugin sample_blocks) [Mount, Destroy])
       = Some (Inl TypeError)
   \<and> map_option component.pending
       (run (init goblin basic_layout sample_plugin sample_blocks) [Mount, Destroy, Timer None])
       = Some False"
  by code_simp

text \<open>
  What does hold after destruction: the observer has no target in any later state, and it
  never calls \<^verbatim>\<open>onResize\<close> again.
\<close>

lemma observer_silent_after_destroy:
  assumes "run (init m l p sb) (es @ Destroy # es') = Some s"
  shows "\<not> component.observing s \<and> Resize \<notin> set es'"
proof -
  from assms obtain s0 s1 where
    s: "run (init m l p sb) es = Some s0" "step Destroy s0 = Some s1" "run s1 es' = Some s"
    by (auto simp: run_append split: option.splits)
  from s(2) have "component.phase s1 = Destroyed" "\<not> component.observing s1"
    by (auto simp: onDestroy_def split: if_splits)
  from run_destroyed[OF s(3) this] show ?thesis by simp
qed

subsection \<open>C9: bounds on the column count\<close>

text \<open>
  Claim C9, as the code has it. The resolved maximum column count is always a positive
  number (a positive number taken from the creature or the layout, or the fallback 2); it
  need not be at least 1. After initialization and after every event, in particular after
  every column recomputation, the column count is positive and at most the maximum, and it
  is at least 1 whenever the maximum is.
\<close>

theorem columns_within_bounds:
  assumes "run (init m l p sb) es = Some s"
  shows "positive_number (maxColumns m l)
       \<and> js_less (Fin 0) (component.columns s)
       \<and> js_le (component.columns s) (maxColumns m l)
       \<and> (js_le (Fin 1) (maxColumns m l) \<longrightarrow> js_le (Fin 1) (component.columns s))"
proof -
  obtain c where c: "columnWidth m l = Fin c" "0 < c"
    using columnWidth_positive by blast
  let ?P = "\<lambda>s. component.maxColumns s = maxColumns m l \<and> component.columnWidth s = Fin c
              \<and> columns_ok (maxColumns m l) (component.columns s)"
  have "?P s"
  proof (rule run_invariant[OF assms])
    show "?P (init m l p sb)"
      by (simp add: init_def c columns_ok_refl maxColumns_positive)
  next
    fix e a b assume a: "?P a" and st: "step e a = Some b"
    from step_columns_ok[OF st _ maxColumns_positive _ c(2)] a step_frame[OF st]
    show "?P b" by simp
  qed
  then show ?thesis
    by (simp add: columns_ok_def maxColumns_positive)
qed

text \<open>The goblin (maximum 3) in a container 750 wide: 2 columns, between 1 and 3.\<close>

theorem columns_within_bounds_witness:
  "\<exists>s. run (init goblin basic_layout sample_plugin sample_blocks)
          [Mount, Resize, Timer (Some 750)] = Some s
     \<and> js_le (Fin 1) (maxColumns goblin basic_layout)
     \<and> js_less (Fin 0) (component.columns s)
     \<and> js_le (component.columns s) (maxColumns goblin basic_layout)
     \<and> js_le (Fin 1) (component.columns s)"
proof -
  let ?r = "run (init goblin basic_layout sample_plugin sample_blocks)
              [Mount, Resize, Timer (Some 750)]"
  have r: "?r = Some (the ?r)" by code_simp
  have h: "js_le (Fin 1) (maxColumns goblin basic_layout)" by code_simp
  from columns_within_bounds[OF r] h r show ?thesis by blast
qed

text \<open>
  C9 as worded (the maximum is at least 1, and so is the column count) fails for a creature
  with \<^verbatim>\<open>columns: 0.5\<close>: one half is a positive number, so it is the resolved maximum, the
  initial column count, and the column count after a recomputation in a container 750 wide.
\<close>

theorem columns_below_one_counterexample:
  "maxColumns (goblin\<lparr>monster.columns := Some (Fin (1 / 2))\<rparr>) basic_layout = Fin (1 / 2)
   \<and> \<not> js_le (Fin 1) (maxColumns (goblin\<lparr>monster.columns := Some (Fin (1 / 2))\<rparr>) basic_layout)
   \<and> component.columns
        (init (goblin\<lparr>monster.columns := Some (Fin (1 / 2))\<rparr>) basic_layout
           sample_plugin sample_blocks)
      = Fin (1 / 2)
   \<and> map_option component.columns
        (run (init (goblin\<lparr>monster.columns := Some (Fin (1 / 2))\<rparr>) basic_layout
                sample_plugin sample_blocks)
             [Mount, Timer (Some 750)]) = Some (Fin (1 / 2))"
  by code_simp

subsection \<open>C10: the resolved parameters are fixed at creation\<close>

text \<open>
  Claim C10: \<^verbatim>\<open>maxColumns\<close>, \<^verbatim>\<open>columnWidth\<close>, \<^verbatim>\<open>canDice\<close> and \<^verbatim>\<open>canRender\<close> are what the
  creature, layout and plugin present at creation resolve to, after any sequence of events;
  replacing the creature puts the new creature into \<^verbatim>\<open>monsterStore\<close> and leaves the four
  parameters as they were.
\<close>

theorem resolved_parameters_fixed:
  assumes "run (init m l p sb) es = Some s" and "step (SetMonster m') s = Some s'"
  shows "component.monsterStore s' = m'
       \<and> component.maxColumns s' = maxColumns m l
       \<and> component.columnWidth s' = columnWidth m l
       \<and> component.canDice s' = canDice m p
       \<and> component.canRender s' = canRender m p"
  using assms(2) run_init_frame(1-4)[OF assms(1)]
  by (auto simp: set_monster_def split: if_splits)

text \<open>
  The goblin replaced by one asking for 5 columns and no dice: the store has the new
  goblin, the maximum stays 3 and dice stay parsed.
\<close>

theorem resolved_parameters_fixed_witness:
  "\<exists>s s'. run (init goblin basic_layout sample_plugin sample_blocks)
              [Mount, Timer (Some 750)] = Some s
     \<and> step (SetMonster (goblin\<lparr>monster.columns := Some (Fin 5), dice := Some False\<rparr>)) s
         = Some s'
     \<and> component.monsterStore s' = goblin\<lparr>monster.columns := Some (Fin 5), dice := Some False\<rparr>
     \<and> component.maxColumns s' = Fin 3
     \<and> component.columnWidth s' = Fin 300
     \<and> component.canDice s' = True
     \<and> component.canRender s' = False"
proof -
  let ?i = "init goblin basic_layout sample_plugin sample_blocks"
  let ?m = "goblin\<lparr>monster.columns := Some (Fin 5), dice := Some False\<rparr>"
  let ?r = "run ?i [Mount, Timer (Some 750)]"
  let ?t = "step (SetMonster ?m) (the ?r)"
  have r: "?r = Some (the ?r)" by code_simp
  have t: "?t = Some (the ?t)" by code_simp
  have v: "maxColumns goblin basic_layout = Fin 3" "columnWidth goblin basic_layout = Fin 300"
    "canDice goblin sample_plugin = True" "canRender goblin sample_plugin = False"
    by code_simp+
  from resolved_parameters_fixed[OF r t] v r t show ?thesis by metis
qed

end
